theory Spec2Isabelle
  imports Complex_Main "HOL-Library.Multiset"
begin

section \<open>Python values used by the two agents\<close>

subsection \<open>Strings\<close>

text \<open>
  A Python \<open>str\<close> is a sequence of code points. The model uses \<^typ>\<open>string\<close> and reads each
  \<^typ>\<open>char\<close> as one code point below 256 (the Latin-1 range); \<open>str.strip()\<close>,
  \<open>str.lower()\<close> and \<open>str.isdigit()\<close> are written out for that range, on which
  \<open>lower\<close> is closed.
\<close>

definition isspace :: "char \<Rightarrow> bool" where
  "isspace c = (let n = (of_char c :: nat) in
     (9 \<le> n \<and> n \<le> 13) \<or> (28 \<le> n \<and> n \<le> 32) \<or> n = 133 \<or> n = 160)"

definition lstrip :: "string \<Rightarrow> string" where
  "lstrip s = dropWhile isspace s"

definition strip :: "string \<Rightarrow> string" where
  "strip s = rev (lstrip (rev (lstrip s)))"

definition lower_char :: "char \<Rightarrow> char" where
  "lower_char c = (let n = (of_char c :: nat) in
     if (65 \<le> n \<and> n \<le> 90) \<or> (192 \<le> n \<and> n \<le> 222 \<and> n \<noteq> 215)
     then char_of (n + 32) else c)"

definition lower :: "string \<Rightarrow> string" where
  "lower s = map lower_char s"

definition isdigit_char :: "char \<Rightarrow> bool" where
  "isdigit_char c = (let n = (of_char c :: nat) in
     (48 \<le> n \<and> n \<le> 57) \<or> n = 178 \<or> n = 179 \<or> n = 185)"

definition isdigit :: "string \<Rightarrow> bool" where
  "isdigit s = (s \<noteq> [] \<and> list_all isdigit_char s)"

subsection \<open>Floats\<close>

text \<open>
  A rating typed at the prompt goes through \<open>float(...)\<close>, which also accepts \<open>nan\<close> and
  \<open>inf\<close>. Only comparisons of ratings matter below; a finite float is taken at its exact
  rational value, and every comparison with NaN is false.
\<close>

datatype pyfloat = Finite rat | PosInf | NegInf | NaN

fun py_le :: "pyfloat \<Rightarrow> pyfloat \<Rightarrow> bool" where
  "py_le NaN _ = False"
| "py_le _ NaN = False"
| "py_le NegInf _ = True"
| "py_le _ PosInf = True"
| "py_le (Finite a) (Finite b) = (a \<le> b)"
| "py_le _ _ = False"

definition py_ge :: "pyfloat \<Rightarrow> pyfloat \<Rightarrow> bool" where
  "py_ge a b = py_le b a"

subsection \<open>Exceptions, and the backing file\<close>

datatype exn = FileNotFoundError | PermissionError | UnicodeDecodeError
  | JSONDecodeError | ValueError | TypeError | OSError

datatype 'a outcome = Raised exn | Returned 'a

text \<open>
  What a reader finds at the path of the backing file: nothing, something that cannot be
  opened for reading, bytes that are not text in the expected encoding, text that is not
  JSON, or a JSON document, represented by what it denotes.
\<close>

datatype 'a file_state = Absent | Unreadable | Undecodable | Malformed | Holds 'a

text \<open>\<open>with open(path, 'r') as file: json.load(file)\<close>\<close>

fun open_and_load :: "'a file_state \<Rightarrow> 'a outcome" where
  "open_and_load Absent = Raised FileNotFoundError"
| "open_and_load Unreadable = Raised PermissionError"
| "open_and_load Undecodable = Raised UnicodeDecodeError"
| "open_and_load Malformed = Raised JSONDecodeError"
| "open_and_load (Holds v) = Returned v"

text \<open>\<open>Path.exists()\<close>\<close>

fun path_exists :: "'a file_state \<Rightarrow> bool" where
  "path_exists Absent = False"
| "path_exists _ = True"

text \<open>
  What a write of the backing file meets: it goes through; the directory cannot be made
  or the file cannot be opened for writing, which leaves the file as it was; or the file
  is opened, which empties it, and the dump breaks off, which leaves a part of a
  document. A part of a document is not JSON.
\<close>

datatype write_result = WriteOk | OpenFails | DumpFails

text \<open>
  What \<open>load_books\<close> writes to the log and to the console. \<open>PrintWarning\<close> is the line
  it prints for a corrupted file: a warning sign followed by
  \<open>Warning: Storage file corrupted. Starting fresh.\<close> Printing is taken to succeed.
\<close>

datatype event = LogInfo | LogError | PrintWarning

subsection \<open>JSON documents\<close>

text \<open>
  The values of JSON, as \<open>json.load\<close> and \<open>json.dump\<close> relate them to Python values:
  \<open>None\<close> is \<open>null\<close>, an \<open>int\<close> is a number without a fraction, a \<open>float\<close> a number with
  one, a \<open>str\<close> a string, a \<open>list\<close> an array, and a \<open>dict\<close> an object with its keys in
  insertion order.
\<close>

datatype json = JNull | JBool bool | JInt int | JFloat rat | JString string
  | JArray "json list" | JObject "(string \<times> json) list"

text \<open>\<open>len(x)\<close> raises \<open>TypeError\<close> on \<open>None\<close>, a \<open>bool\<close> and a number.\<close>

fun has_len :: "json \<Rightarrow> bool" where
  "has_len (JArray _) = True"
| "has_len (JObject _) = True"
| "has_len (JString _) = True"
| "has_len _ = False"

section \<open>The library agent (library\_agent.py)\<close>

record book =
  book_id :: int
  title :: string
  author :: string
  genre :: string
  year :: "int option"
  isbn :: "string option"
  rating :: "rat option"
  status :: string
  added_date :: string
  book_notes :: string

text \<open>
  A book is a \<open>dict\<close> with the ten keys \<open>add_book\<close> gives it. \<open>book_to_json\<close> is the
  object \<open>json.dump\<close> writes for it.
\<close>

definition book_keys :: "string list" where
  "book_keys = [''id'', ''title'', ''author'', ''genre'', ''year'', ''isbn'', ''rating'',
                ''status'', ''added_date'', ''notes'']"

definition book_to_json :: "book \<Rightarrow> json" where
  "book_to_json b = JObject
     [(''id'', JInt (book_id b)),
      (''title'', JString (title b)),
      (''author'', JString (author b)),
      (''genre'', JString (genre b)),
      (''year'', case year b of None \<Rightarrow> JNull | Some y \<Rightarrow> JInt y),
      (''isbn'', case isbn b of None \<Rightarrow> JNull | Some i \<Rightarrow> JString i),
      (''rating'', case rating b of None \<Rightarrow> JNull | Some q \<Rightarrow> JFloat q),
      (''status'', JString (status b)),
      (''added_date'', JString (added_date b)),
      (''notes'', JString (book_notes b))]"

definition dump_books :: "book list \<Rightarrow> json" where
  "dump_books bs = JArray (map book_to_json bs)"

text \<open>
  Reading a loaded value as a list of books: an array of objects with exactly the ten
  keys, in any order, each value of its field's type. A rating may be written without a
  fraction. \<open>None\<close> when the value is not such a list.
\<close>

fun as_int :: "json \<Rightarrow> int option" where
  "as_int (JInt n) = Some n"
| "as_int _ = None"

fun as_string :: "json \<Rightarrow> string option" where
  "as_string (JString x) = Some x"
| "as_string _ = None"

fun as_opt_int :: "json \<Rightarrow> int option option" where
  "as_opt_int JNull = Some None"
| "as_opt_int (JInt n) = Some (Some n)"
| "as_opt_int _ = None"

fun as_opt_string :: "json \<Rightarrow> string option option" where
  "as_opt_string JNull = Some None"
| "as_opt_string (JString x) = Some (Some x)"
| "as_opt_string _ = None"

fun as_opt_number :: "json \<Rightarrow> rat option option" where
  "as_opt_number JNull = Some None"
| "as_opt_number (JFloat q) = Some (Some q)"
| "as_opt_number (JInt n) = Some (Some (of_int n))"
| "as_opt_number _ = None"

definition get_field :: "(string \<times> json) list \<Rightarrow> string \<Rightarrow> (json \<Rightarrow> 'a option) \<Rightarrow> 'a option"
  where
  "get_field ms k as = Option.bind (map_of ms k) as"

definition book_of_members :: "(string \<times> json) list \<Rightarrow> book option" where
  "book_of_members ms =
     Option.bind (get_field ms ''id'' as_int) (\<lambda>i.
     Option.bind (get_field ms ''title'' as_string) (\<lambda>t.
     Option.bind (get_field ms ''author'' as_string) (\<lambda>a.
     Option.bind (get_field ms ''genre'' as_string) (\<lambda>g.
     Option.bind (get_field ms ''year'' as_opt_int) (\<lambda>y.
     Option.bind (get_field ms ''isbn'' as_opt_string) (\<lambda>n.
     Option.bind (get_field ms ''rating'' as_opt_number) (\<lambda>r.
     Option.bind (get_field ms ''status'' as_string) (\<lambda>st.
     Option.bind (get_field ms ''added_date'' as_string) (\<lambda>d.
     Option.bind (get_field ms ''notes'' as_string) (\<lambda>no.
       Some \<lparr>book_id = i, title = t, author = a, genre = g, year = y, isbn = n,
             rating = r, status = st, added_date = d, book_notes = no\<rparr>))))))))))"

fun book_of_json :: "json \<Rightarrow> book option" where
  "book_of_json (JObject ms) =
     (if distinct (map fst ms) \<and> set (map fst ms) = set book_keys
      then book_of_members ms else None)"
| "book_of_json _ = None"

fun books_of_json :: "json \<Rightarrow> book list option" where
  "books_of_json (JArray js) = those (map book_of_json js)"
| "books_of_json _ = None"

text \<open>
  The agent with the file at its \<open>storage_path\<close>; \<open>on_write\<close> is what a write of that
  file meets.
\<close>

record library_agent =
  books :: "book list"
  storage :: "json file_state"
  on_write :: write_result

text \<open>
  The body of the \<open>try\<close> in \<open>load_books\<close>: the value is returned after \<open>len(books)\<close> has
  been taken for the log line.
\<close>

definition try_load_books :: "json file_state \<Rightarrow> json outcome" where
  "try_load_books f =
     (if path_exists f
      then (case open_and_load f of
              Returned j \<Rightarrow> if has_len j then Returned j else Raised TypeError
            | Raised e \<Rightarrow> Raised e)
      else Returned (JArray []))"

definition load_books :: "json file_state \<Rightarrow> event list \<times> json outcome" where
  "load_books f =
     (case try_load_books f of
        Returned j \<Rightarrow> ([LogInfo], Returned j)
      | Raised JSONDecodeError \<Rightarrow> ([LogError, PrintWarning], Returned (JArray []))
      | Raised _ \<Rightarrow> ([LogError], Returned (JArray [])))"

text \<open>
  \<open>save_books\<close> catches every error of the write and returns \<open>False\<close>.
\<close>

definition save_books :: "library_agent \<Rightarrow> bool \<times> library_agent" where
  "save_books s =
     (case on_write s of
        WriteOk \<Rightarrow> (True, s\<lparr>storage := Holds (dump_books (books s))\<rparr>)
      | OpenFails \<Rightarrow> (False, s)
      | DumpFails \<Rightarrow> (False, s\<lparr>storage := Malformed\<rparr>))"

text \<open>
  \<open>LibraryAgent(storage_path)\<close>: a fresh instance on a backing file, whose collection is
  what \<open>load_books\<close> returned. The result is \<open>None\<close> when that value is not a list of
  books: Python builds the agent all the same, with a collection the operations below
  have no reading for.
\<close>

definition LibraryAgent_init ::
  "json file_state \<Rightarrow> write_result \<Rightarrow> library_agent option outcome" where
  "LibraryAgent_init f w =
     (case snd (load_books f) of
        Raised e \<Rightarrow> Raised e
      | Returned j \<Rightarrow>
          Returned (map_option (\<lambda>bs. \<lparr>books = bs, storage = f, on_write = w\<rparr>)
                      (books_of_json j)))"

text \<open>\<open>max(book['id'] for book in self.books)\<close>, on a collection that is not empty.\<close>

fun py_max :: "int list \<Rightarrow> int" where
  "py_max [] = 0"
| "py_max (x # xs) = foldl max x xs"

definition generate_book_id :: "library_agent \<Rightarrow> int" where
  "generate_book_id s = (if books s = [] then 1 else py_max (map book_id (books s)) + 1)"

text \<open>\<open>today\<close> is \<open>datetime.now().strftime("%Y-%m-%d")\<close>.\<close>

definition add_book ::
  "string \<Rightarrow> string \<Rightarrow> string \<Rightarrow> int option \<Rightarrow> string option \<Rightarrow> string
     \<Rightarrow> library_agent \<Rightarrow> book \<times> library_agent" where
  "add_book t a g y i today s =
     (let b = \<lparr>book_id = generate_book_id s, title = strip t, author = strip a,
                genre = strip g, year = y, isbn = i, rating = None,
                status = ''unread'', added_date = today, book_notes = ''''\<rparr>
      in (b, snd (save_books (s\<lparr>books := books s @ [b]\<rparr>))))"

text \<open>The scan of \<open>get_book_by_id\<close> returns the first record with the identifier.\<close>

definition get_book_by_id :: "int \<Rightarrow> library_agent \<Rightarrow> book option" where
  "get_book_by_id bid s = find (\<lambda>b. book_id b = bid) (books s)"

text \<open>
  \<open>book['rating'] = rating\<close> writes into the record \<open>get_book_by_id\<close> returned, which is
  the first record of the collection with the identifier.
\<close>

fun set_rating :: "int \<Rightarrow> rat \<Rightarrow> book list \<Rightarrow> book list" where
  "set_rating bid q [] = []"
| "set_rating bid q (b # bs) =
     (if book_id b = bid then b\<lparr>rating := Some q\<rparr> # bs else b # set_rating bid q bs)"

text \<open>The value of a float that passed the range check of \<open>rate_book\<close>.\<close>

fun the_finite :: "pyfloat \<Rightarrow> rat" where
  "the_finite (Finite q) = q"
| "the_finite _ = 0"

definition rate_book :: "int \<Rightarrow> pyfloat \<Rightarrow> library_agent \<Rightarrow> bool \<times> library_agent" where
  "rate_book bid r s =
     (if \<not> (py_le (Finite 0) r \<and> py_le r (Finite 5)) then (False, s)
      else case get_book_by_id bid s of
        Some b \<Rightarrow>
          (True, snd (save_books (s\<lparr>books := set_rating bid (the_finite r) (books s)\<rparr>)))
      | None \<Rightarrow> (False, s))"

text \<open>
  \<open>book.get("rating")\<close> used as a condition: \<open>None\<close> and zero are false.
\<close>

fun truthy :: "rat option \<Rightarrow> bool" where
  "truthy None = False"
| "truthy (Some q) = (q \<noteq> 0)"

text \<open>
  \<open>x.get("rating", 0)\<close> and \<open>book["rating"]\<close>, read on records whose rating is set.
\<close>

fun rating_of :: "book \<Rightarrow> rat" where
  "rating_of b = (case rating b of Some q \<Rightarrow> q | None \<Rightarrow> 0)"

text \<open>
  \<open>list.sort(key=..., reverse=True)\<close>: descending by key and stable, records of equal
  key staying in their order.
\<close>

fun insort_reverse :: "('a \<Rightarrow> rat) \<Rightarrow> 'a \<Rightarrow> 'a list \<Rightarrow> 'a list" where
  "insort_reverse k x [] = [x]"
| "insort_reverse k x (y # ys) =
     (if k y \<le> k x then x # y # ys else y # insort_reverse k x ys)"

fun sort_reverse :: "('a \<Rightarrow> rat) \<Rightarrow> 'a list \<Rightarrow> 'a list" where
  "sort_reverse k [] = []"
| "sort_reverse k (x # xs) = insort_reverse k x (sort_reverse k xs)"

definition recommended :: "string option \<Rightarrow> pyfloat \<Rightarrow> book \<Rightarrow> bool" where
  "recommended g min_rating b =
     (truthy (rating b) \<and> py_ge (Finite (rating_of b)) min_rating
      \<and> (case g of None \<Rightarrow> True | Some c \<Rightarrow> lower (genre b) = lower c))"

definition get_recommendations ::
  "string option \<Rightarrow> pyfloat \<Rightarrow> library_agent \<Rightarrow> book list" where
  "get_recommendations g min_rating s =
     sort_reverse rating_of (filter (recommended g min_rating) (books s))"

record statistics =
  total_books :: nat
  read :: nat
  reading :: nat
  unread :: nat
  average_rating :: rat
  unique_genres :: nat
  unique_authors :: nat

definition rated_books :: "library_agent \<Rightarrow> book list" where
  "rated_books s = filter (\<lambda>b. truthy (rating b)) (books s)"

text \<open>
  The mean of the set ratings, in exact arithmetic: the rounding error of the float sum
  and division is not modelled.
\<close>

definition avg_rating :: "library_agent \<Rightarrow> rat" where
  "avg_rating s =
     (if rated_books s \<noteq> []
      then sum_list (map rating_of (rated_books s)) / of_nat (length (rated_books s))
      else 0)"

text \<open>\<open>round2\<close> stands for Python's \<open>round(x, 2)\<close> on floats.\<close>

definition get_statistics :: "(rat \<Rightarrow> rat) \<Rightarrow> library_agent \<Rightarrow> statistics" where
  "get_statistics round2 s =
     \<lparr>total_books = length (books s),
      read = length (filter (\<lambda>b. status b = ''read'') (books s)),
      reading = length (filter (\<lambda>b. status b = ''reading'') (books s)),
      unread = length (filter (\<lambda>b. status b = ''unread'') (books s)),
      average_rating = round2 (avg_rating s),
      unique_genres = length (remdups (map genre (books s))),
      unique_authors = length (remdups (map author (books s)))\<rparr>"

text \<open>
  The loop of \<open>delete_book\<close>: \<open>self.books.pop(i)\<close> at the first index whose record has
  the identifier; \<open>None\<close> when the loop ends without a match.
\<close>

fun pop_by_id :: "int \<Rightarrow> book list \<Rightarrow> book list option" where
  "pop_by_id bid [] = None"
| "pop_by_id bid (b # bs) =
     (if book_id b = bid then Some bs else map_option ((#) b) (pop_by_id bid bs))"

definition delete_book :: "int \<Rightarrow> library_agent \<Rightarrow> bool \<times> library_agent" where
  "delete_book bid s =
     (case pop_by_id bid (books s) of
        Some bs \<Rightarrow> (True, snd (save_books (s\<lparr>books := bs\<rparr>)))
      | None \<Rightarrow> (False, s))"

subsection \<open>The menu handler of main.py that calls \<open>add_book\<close>\<close>

text \<open>
  \<open>handle_add_book_manual\<close> reads its five answers with \<open>input\<close>; they are arguments
  here. \<open>py_int\<close> stands for Python's \<open>int\<close> on a string, \<open>None\<close> when it raises
  \<open>ValueError\<close>. The handler returns nothing: its outcome is whether it raised.
\<close>

definition handle_add_book_manual ::
  "(string \<Rightarrow> int option) \<Rightarrow> string \<Rightarrow> string \<Rightarrow> string \<Rightarrow> string \<Rightarrow> string \<Rightarrow> string
     \<Rightarrow> library_agent \<Rightarrow> unit outcome \<times> library_agent" where
  "handle_add_book_manual py_int today title_in author_in genre_in year_in isbn_in s =
     (let t = strip title_in in
      if t = [] then (Returned (), s)
      else let a = strip author_in in
        if a = [] then (Returned (), s)
        else let g = (if strip genre_in = [] then ''Unknown'' else strip genre_in);
                 year_input = strip year_in
             in if isdigit year_input \<and> py_int year_input = None then (Raised ValueError, s)
                else let y = (if isdigit year_input then py_int year_input else None);
                         i = (if strip isbn_in = [] then None else Some (strip isbn_in))
                     in (Returned (), snd (add_book t a g y i today s)))"

section \<open>The movie agent (movie\_agent.py)\<close>

record movie =
  movie_title :: string
  movie_genre :: string
  movie_rating :: pyfloat
  movie_year :: int
  watched :: bool

text \<open>
  The agent with the file at its \<open>data_path\<close>, a document being represented by the
  list of movies it denotes; \<open>data_on_write\<close> is what a write of that file meets.
\<close>

record movie_agent =
  movies :: "movie list"
  use_session_state :: bool
  data_file :: "movie list file_state"
  data_on_write :: write_result

definition load_movies :: "movie list file_state \<Rightarrow> movie list outcome" where
  "load_movies f =
     (case open_and_load f of
        Raised JSONDecodeError \<Rightarrow> Returned []
      | Raised FileNotFoundError \<Rightarrow> Returned []
      | r \<Rightarrow> r)"

text \<open>\<open>save_movies\<close> has no handler: a failing write raises in the caller.\<close>

definition save_movies :: "movie_agent \<Rightarrow> unit outcome \<times> movie_agent" where
  "save_movies s =
     (if \<not> use_session_state s
      then (case data_on_write s of
              WriteOk \<Rightarrow> (Returned (), s\<lparr>data_file := Holds (movies s)\<rparr>)
            | OpenFails \<Rightarrow> (Raised PermissionError, s)
            | DumpFails \<Rightarrow> (Raised OSError, s\<lparr>data_file := Malformed\<rparr>))
      else (Returned (), s))"

text \<open>
  \<open>add_movie\<close> is given a rating that is a \<open>float\<close> and a year that is an \<open>int\<close>, which
  \<open>float(rating)\<close> and \<open>int(year)\<close> leave as they are.
\<close>

definition add_movie ::
  "string \<Rightarrow> string \<Rightarrow> pyfloat \<Rightarrow> int \<Rightarrow> bool \<Rightarrow> movie_agent \<Rightarrow> movie outcome \<times> movie_agent"
  where
  "add_movie t g r y w s =
     (let m = \<lparr>movie_title = t, movie_genre = g, movie_rating = r, movie_year = y,
                watched = w\<rparr>
      in case save_movies (s\<lparr>movies := movies s @ [m]\<rparr>) of
           (Raised e, s') \<Rightarrow> (Raised e, s')
         | (Returned _, s') \<Rightarrow> (Returned m, s'))"

definition recommend :: "pyfloat \<Rightarrow> movie_agent \<Rightarrow> movie list" where
  "recommend min_rating s = filter (\<lambda>m. py_ge (movie_rating m) min_rating) (movies s)"

definition delete_movie :: "string \<Rightarrow> movie_agent \<Rightarrow> bool outcome \<times> movie_agent" where
  "delete_movie t s =
     (let original_length = length (movies s);
          s1 = s\<lparr>movies := filter (\<lambda>m. lower (movie_title m) \<noteq> lower t) (movies s)\<rparr>
      in if length (movies s1) < original_length
         then (case save_movies s1 of
                 (Raised e, s2) \<Rightarrow> (Raised e, s2)
               | (Returned _, s2) \<Rightarrow> (Returned True, s2))
         else (Returned False, s1))"

section \<open>Example states\<close>

definition empty_library :: library_agent where
  "empty_library = \<lparr>books = [], storage = Absent, on_write = WriteOk\<rparr>"

definition dune :: book where
  "dune = \<lparr>book_id = 1, title = ''Dune'', author = ''Frank Herbert'', genre = ''Fiction'',
            year = None, isbn = None, rating = None, status = ''unread'',
            added_date = ''2024-01-01'', book_notes = ''''\<rparr>"

definition one_book_library :: library_agent where
  "one_book_library =
     snd (add_book ''Dune'' ''Frank Herbert'' ''Fiction'' None None ''2024-01-01''
            empty_library)"

definition unsaved_library :: library_agent where
  "unsaved_library = \<lparr>books = [dune], storage = Absent, on_write = WriteOk\<rparr>"

definition blank_book :: book where
  "blank_book = \<lparr>book_id = 1, title = '''', author = '''', genre = ''Fiction'',
            year = None, isbn = None, rating = None, status = ''unread'',
            added_date = ''2024-01-01'', book_notes = ''''\<rparr>"

definition empty_movie_agent :: movie_agent where
  "empty_movie_agent = \<lparr>movies = [], use_session_state = False, data_file = Holds [],
                          data_on_write = WriteOk\<rparr>"

definition untitled_movie :: movie where
  "untitled_movie = \<lparr>movie_title = '''', movie_genre = '''', movie_rating = Finite 7,
                      movie_year = 1999, watched = False\<rparr>"

definition up :: movie where
  "up = \<lparr>movie_title = ''Up'', movie_genre = ''Animation'', movie_rating = Finite 8,
          movie_year = 2009, watched = True\<rparr>"

definition heat :: movie where
  "heat = \<lparr>movie_title = ''Heat'', movie_genre = ''Crime'', movie_rating = Finite 9,
            movie_year = 1995, watched = False\<rparr>"

definition up_remake :: movie where
  "up_remake = \<lparr>movie_title = ''UP'', movie_genre = ''Drama'', movie_rating = Finite 6,
                 movie_year = 2020, watched = False\<rparr>"

definition film_agent :: movie_agent where
  "film_agent = \<lparr>movies = [up, heat, up_remake], use_session_state = False,
                   data_file = Holds [up, heat, up_remake], data_on_write = WriteOk\<rparr>"

definition dune_rated :: book where
  "dune_rated = dune\<lparr>rating := Some 5\<rparr>"

definition emma :: book where
  "emma = \<lparr>book_id = 2, title = ''Emma'', author = ''Jane Austen'', genre = ''fiction'',
            year = Some 1815, isbn = None, rating = Some (9 / 2), status = ''read'',
            added_date = ''2024-01-02'', book_notes = ''''\<rparr>"

definition ulysses :: book where
  "ulysses = \<lparr>book_id = 3, title = ''Ulysses'', author = ''James Joyce'', genre = ''Fiction'',
               year = Some 1922, isbn = None, rating = Some 3, status = ''reading'',
               added_date = ''2024-01-03'', book_notes = ''''\<rparr>"

definition dracula :: book where
  "dracula = \<lparr>book_id = 4, title = ''Dracula'', author = ''Bram Stoker'', genre = ''Horror'',
               year = Some 1897, isbn = None, rating = Some 5, status = ''read'',
               added_date = ''2024-01-04'', book_notes = ''''\<rparr>"

definition walden :: book where
  "walden = \<lparr>book_id = 5, title = ''Walden'', author = ''Henry Thoreau'', genre = ''Fiction'',
              year = Some 1854, isbn = None, rating = None, status = ''unread'',
              added_date = ''2024-01-05'', book_notes = ''''\<rparr>"

definition rated_library :: library_agent where
  "rated_library = \<lparr>books = [emma, dune_rated, ulysses, dracula, walden],
                      storage = Holds (dump_books [emma, dune_rated, ulysses, dracula, walden]),
                      on_write = WriteOk\<rparr>"

definition stale_library :: library_agent where
  "stale_library = \<lparr>books = [emma, dune], storage = Holds (dump_books [emma]),
                      on_write = OpenFails\<rparr>"

definition unwritable_film_agent :: movie_agent where
  "unwritable_film_agent = \<lparr>movies = [up, heat, up_remake], use_session_state = False,
                              data_file = Holds [up, heat, up_remake],
                              data_on_write = OpenFails\<rparr>"

section \<open>Writing the file\<close>

lemma books_save_books: "books (snd (save_books s)) = books s"
  by (cases "on_write s") (simp_all add: save_books_def)

lemma on_write_save_books: "on_write (snd (save_books s)) = on_write s"
  by (cases "on_write s") (simp_all add: save_books_def)

lemma storage_save_books:
  "storage (snd (save_books s))
     = (case on_write s of WriteOk \<Rightarrow> Holds (dump_books (books s))
        | OpenFails \<Rightarrow> storage s | DumpFails \<Rightarrow> Malformed)"
  by (cases "on_write s") (simp_all add: save_books_def)

section \<open>Identifiers\<close>

lemma foldl_max_Max: "foldl max (a::int) xs = Max (insert a (set xs))"
proof (induction xs arbitrary: a)
  case Nil
  show ?case by simp
next
  case (Cons x xs)
  have "Max (insert (max a x) (set xs)) = Max (insert a (insert x (set xs)))"
    by (cases "set xs = {}") (simp_all add: max.assoc)
  then show ?case using Cons.IH [of "max a x"] by simp
qed

lemma py_max_Max: "xs \<noteq> [] \<Longrightarrow> py_max xs = Max (set xs)"
  by (cases xs) (simp_all add: foldl_max_Max)

lemma generate_book_id_Max:
  "generate_book_id s = (if books s = [] then 1 else Max (book_id ` set (books s)) + 1)"
  by (simp add: generate_book_id_def py_max_Max)

lemma generate_book_id_greater:
  assumes "b \<in> set (books s)"
  shows "book_id b < generate_book_id s"
proof -
  from assms have ne: "books s \<noteq> []" by auto
  have "book_id b \<le> Max (book_id ` set (books s))"
    using assms by (intro Max_ge) auto
  with ne show ?thesis by (simp add: generate_book_id_Max)
qed

lemma add_book_books:
  "books (snd (add_book t a g y i d s)) = books s @ [fst (add_book t a g y i d s)]"
  by (simp add: add_book_def books_save_books Let_def)

lemma add_book_id: "book_id (fst (add_book t a g y i d s)) = generate_book_id s"
  by (simp add: add_book_def Let_def)

lemma generate_book_id_after_add:
  "generate_book_id (snd (add_book t a g y i d s)) = generate_book_id s + 1"
proof -
  let ?b = "fst (add_book t a g y i d s)"
  have fin: "finite (book_id ` set (books s))" by simp
  have "Max (book_id ` set (books s @ [?b])) = generate_book_id s"
  proof (cases "books s = []")
    case True
    then show ?thesis by (simp add: add_book_id generate_book_id_def)
  next
    case False
    then have ne: "book_id ` set (books s) \<noteq> {}" by simp
    have "Max (insert (book_id ?b) (book_id ` set (books s)))
            = max (book_id ?b) (Max (book_id ` set (books s)))"
      using fin ne by (rule Max_insert)
    with False show ?thesis by (simp add: add_book_id generate_book_id_Max)
  qed
  then show ?thesis
    by (simp add: generate_book_id_Max [of "snd (add_book t a g y i d s)"] add_book_books)
qed

lemma one_book_library_books: "books one_book_library = [dune]"
  by code_simp

lemma pop_by_id_found:
  "bid \<in> book_id ` set bs \<Longrightarrow> \<exists>bs'. pop_by_id bid bs = Some bs'"
  by (induction bs) auto

lemma pop_by_id_ids:
  "distinct (map book_id bs) \<Longrightarrow> pop_by_id bid bs = Some bs' \<Longrightarrow>
   book_id ` set bs' = book_id ` set bs - {bid}"
proof (induction bs arbitrary: bs')
  case Nil
  then show ?case by simp
next
  case (Cons b bs)
  show ?case
  proof (cases "book_id b = bid")
    case True
    with Cons.prems show ?thesis by auto
  next
    case False
    with Cons.prems obtain cs where cs: "pop_by_id bid bs = Some cs" and bs': "bs' = b # cs"
      by auto
    from Cons.prems have "distinct (map book_id bs)" by simp
    from Cons.IH [OF this cs] have "book_id ` set cs = book_id ` set bs - {bid}" .
    with False bs' show ?thesis by auto
  qed
qed

lemma delete_greatest_then_add:
  assumes d: "distinct (map book_id (books s))"
    and ids: "book_id ` set (books s) = {1..n}" and n: "1 \<le> n"
  shows "fst (delete_book n s) = True"
    and "book_id (fst (add_book t a g y i d' (snd (delete_book n s)))) = n"
proof -
  from ids n have "n \<in> book_id ` set (books s)" by simp
  then obtain bs' where p: "pop_by_id n (books s) = Some bs'"
    using pop_by_id_found by blast
  then show "fst (delete_book n s) = True"
    by (simp add: delete_book_def)
  have bs: "books (snd (delete_book n s)) = bs'"
    using p by (simp add: delete_book_def books_save_books)
  have "book_id ` set bs' = {1..n} - {n}"
    using pop_by_id_ids [OF d p] ids by simp
  also have "\<dots> = {1..n - 1}" by auto
  finally have ids': "book_id ` set bs' = {1..n - 1}" .
  have "generate_book_id (snd (delete_book n s)) = n"
  proof (cases "bs' = []")
    case True
    with ids' have "{1..n - 1} = {}" by simp
    with n have "n = 1" by simp
    with True bs show ?thesis by (simp add: generate_book_id_def)
  next
    case False
    then have "book_id ` set bs' \<noteq> {}" by simp
    with ids' have "1 \<le> n - 1" by simp
    then have "Max {1..n - 1} = n - 1"
      by (intro Max_eqI) auto
    with False bs ids' show ?thesis by (simp add: generate_book_id_Max)
  qed
  then show "book_id (fst (add_book t a g y i d' (snd (delete_book n s)))) = n"
    by (simp add: add_book_id)
qed

lemma rated_library_ids:
  "distinct (map book_id (books rated_library))"
  "book_id ` set (books rated_library) = {1..5}"
  by (auto simp add: rated_library_def emma_def dune_rated_def dune_def ulysses_def
      dracula_def walden_def)

text \<open>
  C1 (as the code has it). The identifier \<open>add_book\<close> assigns is the greatest identifier
  of the collection plus one, or 1 for the empty collection; it is greater than every
  identifier in the collection, so it is not in use; and two \<open>add_book\<close> calls in a row
  assign identifiers that differ by exactly 1. Identifiers are assigned again after a
  delete: in a collection whose records have the identifiers 1 to \<open>n\<close>, each once,
  \<open>delete_book n\<close> succeeds and the next \<open>add_book\<close> assigns \<open>n\<close> once more.
\<close>

theorem C1_identifier_assignment:
  "book_id (fst (add_book t a g y i d s))
     = (if books s = [] then 1 else Max (book_id ` set (books s)) + 1)
   \<and> (\<forall>b \<in> set (books s). book_id b < book_id (fst (add_book t a g y i d s)))
   \<and> book_id (fst (add_book t' a' g' y' i' d' (snd (add_book t a g y i d s))))
     = book_id (fst (add_book t a g y i d s)) + 1
   \<and> (distinct (map book_id (books s)) \<and> book_id ` set (books s) = {1..n} \<and> 1 \<le> n \<longrightarrow>
        fst (delete_book n s) = True
        \<and> book_id (fst (add_book t a g y i d (snd (delete_book n s)))) = n)"
proof -
  have "distinct (map book_id (books s)) \<and> book_id ` set (books s) = {1..n} \<and> 1 \<le> n \<longrightarrow>
        fst (delete_book n s) = True
        \<and> book_id (fst (add_book t a g y i d (snd (delete_book n s)))) = n"
    using delete_greatest_then_add [of s n] by blast
  then show ?thesis
    by (simp add: add_book_id generate_book_id_after_add generate_book_id_greater
        generate_book_id_Max [symmetric])
qed

theorem C1_identifier_assignment_witness:
  "dune \<in> set (books one_book_library)
   \<and> book_id dune < book_id (fst (add_book ''Emma'' ''Jane Austen'' ''Fiction'' None None
                                      ''2024-01-02'' one_book_library))
   \<and> book_id (fst (add_book ''Emma'' ''Jane Austen'' ''Fiction'' None None
                     ''2024-01-02'' one_book_library)) = 2
   \<and> distinct (map book_id (books rated_library))
   \<and> book_id ` set (books rated_library) = {1..5}
   \<and> fst (delete_book 5 rated_library) = True
   \<and> book_id (fst (add_book ''Emma'' ''Jane Austen'' ''Fiction'' None None
                     ''2024-01-02'' (snd (delete_book 5 rated_library)))) = 5"
  using C1_identifier_assignment [of "''Emma''" "''Jane Austen''" "''Fiction''" None None
      "''2024-01-02''" one_book_library]
    C1_identifier_assignment [of "''Emma''" "''Jane Austen''" "''Fiction''" None None
      "''2024-01-02''" rated_library _ _ _ _ _ _ 5]
  by (simp add: one_book_library_books dune_def rated_library_ids)

text \<open>
  C1 as stated fails in its last part: an identifier can be assigned again after its
  record was deleted. In an empty library, the first book gets identifier 1; after
  \<open>delete_book 1\<close> the next book gets identifier 1 too.
\<close>

theorem C1_identifier_reused_counterexample:
  "book_id (fst (add_book ''Dune'' ''Frank Herbert'' ''Fiction'' None None ''2024-01-01''
                   empty_library)) = 1
   \<and> fst (delete_book 1 one_book_library) = True
   \<and> books (snd (delete_book 1 one_book_library)) = []
   \<and> book_id (fst (add_book ''Emma'' ''Jane Austen'' ''Fiction'' None None ''2024-01-02''
                     (snd (delete_book 1 one_book_library)))) = 1"
  by (simp add: add_book_id generate_book_id_def delete_book_def books_save_books
      one_book_library_books empty_library_def dune_def)

section \<open>Adding a record\<close>

lemma strip_blank: "strip ''   '' = []"
  by code_simp

text \<open>
  C2 (as the code has it). \<open>add_book\<close> and \<open>add_movie\<close> check nothing. For every input
  \<open>add_book\<close> appends the new record, with title, author and genre trimmed, writes the
  file and returns the record, whether the write went through or not. For every input
  \<open>add_movie\<close> appends the new record and, unless the movies are kept in session state,
  writes the file; it returns the record when the write goes through or is not made, and
  otherwise the error of the write reaches the caller, the record being appended all the
  same. The check for a title or an author that is empty after trimming is made by the
  menu handler \<open>handle_add_book_manual\<close>, which then returns without calling
  \<open>add_book\<close>, so that the agent stays as it was; with both present it calls
  \<open>add_book\<close> with the trimmed answers, unless \<open>int\<close> raises on the year, in which case
  the error reaches the caller and the agent stays as it was.
\<close>

theorem C2_add_performs_no_validation:
  "fst (add_book t a g y i d s)
     = \<lparr>book_id = generate_book_id s, title = strip t, author = strip a, genre = strip g,
        year = y, isbn = i, rating = None, status = ''unread'', added_date = d,
        book_notes = ''''\<rparr>
   \<and> books (snd (add_book t a g y i d s)) = books s @ [fst (add_book t a g y i d s)]
   \<and> storage (snd (add_book t a g y i d s))
     = (case on_write s of
          WriteOk \<Rightarrow> Holds (dump_books (books s @ [fst (add_book t a g y i d s)]))
        | OpenFails \<Rightarrow> storage s
        | DumpFails \<Rightarrow> Malformed)
   \<and> on_write (snd (add_book t a g y i d s)) = on_write s
   \<and> movies (snd (add_movie mt mg mr my mw ms))
     = movies ms @ [\<lparr>movie_title = mt, movie_genre = mg, movie_rating = mr, movie_year = my,
                     watched = mw\<rparr>]
   \<and> fst (add_movie mt mg mr my mw ms)
     = (if use_session_state ms
        then Returned \<lparr>movie_title = mt, movie_genre = mg, movie_rating = mr,
                        movie_year = my, watched = mw\<rparr>
        else case data_on_write ms of
          WriteOk \<Rightarrow> Returned \<lparr>movie_title = mt, movie_genre = mg, movie_rating = mr,
                                movie_year = my, watched = mw\<rparr>
        | OpenFails \<Rightarrow> Raised PermissionError
        | DumpFails \<Rightarrow> Raised OSError)
   \<and> data_file (snd (add_movie mt mg mr my mw ms))
     = (if use_session_state ms then data_file ms
        else case data_on_write ms of
          WriteOk \<Rightarrow> Holds (movies ms @ [\<lparr>movie_title = mt, movie_genre = mg,
                                            movie_rating = mr, movie_year = my,
                                            watched = mw\<rparr>])
        | OpenFails \<Rightarrow> data_file ms
        | DumpFails \<Rightarrow> Malformed)
   \<and> (strip title_in = [] \<or> strip author_in = [] \<longrightarrow>
        handle_add_book_manual py_int d title_in author_in genre_in year_in isbn_in s
          = (Returned (), s))
   \<and> (strip title_in \<noteq> [] \<and> strip author_in \<noteq> []
       \<and> (isdigit (strip year_in) \<longrightarrow> py_int (strip year_in) \<noteq> None) \<longrightarrow>
        handle_add_book_manual py_int d title_in author_in genre_in year_in isbn_in s
          = (Returned (),
             snd (add_book (strip title_in) (strip author_in)
                    (if strip genre_in = [] then ''Unknown'' else strip genre_in)
                    (if isdigit (strip year_in) then py_int (strip year_in) else None)
                    (if strip isbn_in = [] then None else Some (strip isbn_in)) d s)))
   \<and> (strip title_in \<noteq> [] \<and> strip author_in \<noteq> []
       \<and> isdigit (strip year_in) \<and> py_int (strip year_in) = None \<longrightarrow>
        handle_add_book_manual py_int d title_in author_in genre_in year_in isbn_in s
          = (Raised ValueError, s))"
proof -
  have 1: "fst (add_book t a g y i d s)
     = \<lparr>book_id = generate_book_id s, title = strip t, author = strip a, genre = strip g,
        year = y, isbn = i, rating = None, status = ''unread'', added_date = d,
        book_notes = ''''\<rparr>"
    by (simp add: add_book_def Let_def)
  have 2: "books (snd (add_book t a g y i d s)) = books s @ [fst (add_book t a g y i d s)]"
    by (rule add_book_books)
  have 3: "storage (snd (add_book t a g y i d s))
     = (case on_write s of
          WriteOk \<Rightarrow> Holds (dump_books (books s @ [fst (add_book t a g y i d s)]))
        | OpenFails \<Rightarrow> storage s
        | DumpFails \<Rightarrow> Malformed)"
    by (cases "on_write s") (simp_all add: add_book_def Let_def storage_save_books)
  have 4: "on_write (snd (add_book t a g y i d s)) = on_write s"
    by (simp add: add_book_def Let_def on_write_save_books)
  have 5: "movies (snd (add_movie mt mg mr my mw ms))
     = movies ms @ [\<lparr>movie_title = mt, movie_genre = mg, movie_rating = mr, movie_year = my,
                     watched = mw\<rparr>]"
    by (cases "data_on_write ms") (simp_all add: add_movie_def save_movies_def Let_def)
  have 6: "fst (add_movie mt mg mr my mw ms)
     = (if use_session_state ms
        then Returned \<lparr>movie_title = mt, movie_genre = mg, movie_rating = mr,
                        movie_year = my, watched = mw\<rparr>
        else case data_on_write ms of
          WriteOk \<Rightarrow> Returned \<lparr>movie_title = mt, movie_genre = mg, movie_rating = mr,
                                movie_year = my, watched = mw\<rparr>
        | OpenFails \<Rightarrow> Raised PermissionError
        | DumpFails \<Rightarrow> Raised OSError)"
    by (cases "data_on_write ms") (simp_all add: add_movie_def save_movies_def Let_def)
  have 7: "data_file (snd (add_movie mt mg mr my mw ms))
     = (if use_session_state ms then data_file ms
        else case data_on_write ms of
          WriteOk \<Rightarrow> Holds (movies ms @ [\<lparr>movie_title = mt, movie_genre = mg,
                                            movie_rating = mr, movie_year = my,
                                            watched = mw\<rparr>])
        | OpenFails \<Rightarrow> data_file ms
        | DumpFails \<Rightarrow> Malformed)"
    by (cases "data_on_write ms") (simp_all add: add_movie_def save_movies_def Let_def)
  have 8: "strip title_in = [] \<or> strip author_in = [] \<longrightarrow>
        handle_add_book_manual py_int d title_in author_in genre_in year_in isbn_in s
          = (Returned (), s)"
    by (simp add: handle_add_book_manual_def Let_def)
  have 9: "strip title_in \<noteq> [] \<and> strip author_in \<noteq> []
       \<and> (isdigit (strip year_in) \<longrightarrow> py_int (strip year_in) \<noteq> None) \<longrightarrow>
        handle_add_book_manual py_int d title_in author_in genre_in year_in isbn_in s
          = (Returned (),
             snd (add_book (strip title_in) (strip author_in)
                    (if strip genre_in = [] then ''Unknown'' else strip genre_in)
                    (if isdigit (strip year_in) then py_int (strip year_in) else None)
                    (if strip isbn_in = [] then None else Some (strip isbn_in)) d s))"
    by (auto simp add: handle_add_book_manual_def Let_def)
  have 10: "strip title_in \<noteq> [] \<and> strip author_in \<noteq> []
       \<and> isdigit (strip year_in) \<and> py_int (strip year_in) = None \<longrightarrow>
        handle_add_book_manual py_int d title_in author_in genre_in year_in isbn_in s
          = (Raised ValueError, s)"
    by (simp add: handle_add_book_manual_def Let_def)
  show ?thesis by (intro conjI 1 2 3 4 5 6 7 8 9 10)
qed

lemma strip_examples:
  "strip ''Jane Austen'' = ''Jane Austen''" "strip ''Emma'' = ''Emma''" "strip [] = []"
  by code_simp+

theorem C2_add_performs_no_validation_witness:
  "strip ''   '' = []
   \<and> handle_add_book_manual (\<lambda>_. None) ''2024-01-02'' ''   '' ''Jane Austen'' ''Fiction'' [] []
         one_book_library = (Returned (), one_book_library)
   \<and> handle_add_book_manual (\<lambda>_. None) ''2024-01-02'' ''Emma'' ''Jane Austen'' [] [] []
         one_book_library
       = (Returned (),
          snd (add_book ''Emma'' ''Jane Austen'' ''Unknown'' None None ''2024-01-02''
                 one_book_library))"
proof -
  note th = C2_add_performs_no_validation [where d = "''2024-01-02''"
      and s = one_book_library and py_int = "\<lambda>_. None" and author_in = "''Jane Austen''"
      and year_in = "[]" and isbn_in = "[]"]
  have nd: "\<not> isdigit []"
    by (simp add: isdigit_def)
  have a: "handle_add_book_manual (\<lambda>_. None) ''2024-01-02'' ''   '' ''Jane Austen''
             ''Fiction'' [] [] one_book_library = (Returned (), one_book_library)"
    using th [where title_in = "''   ''" and genre_in = "''Fiction''",
        THEN conjunct2, THEN conjunct2, THEN conjunct2, THEN conjunct2, THEN conjunct2,
        THEN conjunct2, THEN conjunct2, THEN conjunct1]
    by (simp add: strip_blank)
  have b: "handle_add_book_manual (\<lambda>_. None) ''2024-01-02'' ''Emma'' ''Jane Austen'' [] [] []
         one_book_library
       = (Returned (),
          snd (add_book ''Emma'' ''Jane Austen'' ''Unknown'' None None ''2024-01-02''
                 one_book_library))"
    using th [where title_in = "''Emma''" and genre_in = "[]",
        THEN conjunct2, THEN conjunct2, THEN conjunct2, THEN conjunct2, THEN conjunct2,
        THEN conjunct2, THEN conjunct2, THEN conjunct2, THEN conjunct1]
    by (simp add: strip_examples nd)
  show ?thesis by (intro conjI strip_blank a b)
qed

text \<open>
  C2 as stated fails: called with a title of three spaces and an empty author,
  \<open>add_book\<close> returns a record with empty title and author, appends it and writes it to
  the backing file; \<open>add_movie\<close> with an empty title does the same.
\<close>

theorem C2_add_accepts_blank_counterexample:
  "strip ''   '' = [] \<and> strip [] = []
   \<and> fst (add_book ''   '' [] ''Fiction'' None None ''2024-01-01'' empty_library) = blank_book
   \<and> books (snd (add_book ''   '' [] ''Fiction'' None None ''2024-01-01'' empty_library))
       = [blank_book]
   \<and> storage (snd (add_book ''   '' [] ''Fiction'' None None ''2024-01-01'' empty_library))
       = Holds (dump_books [blank_book])
   \<and> add_movie [] [] (Finite 7) 1999 False empty_movie_agent
       = (Returned untitled_movie,
          empty_movie_agent\<lparr>movies := [untitled_movie], data_file := Holds [untitled_movie]\<rparr>)"
  by code_simp

lemma find_append_last:
  "(\<And>y. y \<in> set xs \<Longrightarrow> \<not> P y) \<Longrightarrow> P x \<Longrightarrow> find P (xs @ [x]) = Some x"
  by (induction xs) auto

text \<open>
  C4. For every collection and every input, \<open>get_book_by_id\<close> with the identifier of the
  record \<open>add_book\<close> returned finds that record.
\<close>

theorem C4_add_then_get_by_id:
  "get_book_by_id (book_id (fst (add_book t a g y i d s))) (snd (add_book t a g y i d s))
     = Some (fst (add_book t a g y i d s))"
proof -
  have "find (\<lambda>b. book_id b = generate_book_id s) (books s @ [fst (add_book t a g y i d s)])
          = Some (fst (add_book t a g y i d s))"
  proof (rule find_append_last)
    fix b assume "b \<in> set (books s)"
    then show "book_id b \<noteq> generate_book_id s"
      using generate_book_id_greater [of b s] by simp
  next
    show "book_id (fst (add_book t a g y i d s)) = generate_book_id s"
      by (rule add_book_id)
  qed
  then show ?thesis
    by (simp add: get_book_by_id_def add_book_id add_book_books)
qed

section \<open>Rating\<close>

lemma out_of_range:
  assumes "\<not> (\<exists>q. r = Finite q \<and> 0 \<le> q \<and> q \<le> 5)"
  shows "\<not> (py_le (Finite 0) r \<and> py_le r (Finite 5))"
  using assms by (cases r) auto

text \<open>
  C5. For every identifier and every rating that is not a number of the closed interval
  from 0 to 5 (NaN and the infinities among them), \<open>rate_book\<close> returns \<open>False\<close> and
  leaves the agent as it was: no record is changed and the backing file is not written.
\<close>

theorem C5_rate_out_of_range_rejected:
  assumes "\<not> (\<exists>q. r = Finite q \<and> 0 \<le> q \<and> q \<le> 5)"
  shows "rate_book bid r s = (False, s)"
  using out_of_range [OF assms] by (simp add: rate_book_def)

theorem C5_rate_out_of_range_rejected_witness:
  "rate_book 1 (Finite 6) one_book_library = (False, one_book_library)
   \<and> rate_book 1 NaN one_book_library = (False, one_book_library)"
  using C5_rate_out_of_range_rejected [of "Finite 6" 1 one_book_library]
    C5_rate_out_of_range_rejected [of NaN 1 one_book_library]
  by simp

section \<open>Saving and loading\<close>

lemma book_of_json_book_to_json: "book_of_json (book_to_json b) = Some b"
  by (simp add: book_to_json_def book_keys_def book_of_members_def get_field_def
      split: option.split)

lemma books_of_json_dump_books: "books_of_json (dump_books bs) = Some bs"
  by (induction bs) (simp_all add: dump_books_def book_of_json_book_to_json)

lemma load_books_dump: "load_books (Holds (dump_books bs)) = ([LogInfo], Returned (dump_books bs))"
  by (simp add: load_books_def try_load_books_def dump_books_def)

text \<open>
  C3 (as the code has it). Every collection is read back from the document
  \<open>json.dump\<close> writes for it. When the write goes through, \<open>save_books\<close> returns \<open>True\<close>,
  leaves the collection in memory as it is, and a fresh \<open>LibraryAgent\<close> on the same file
  loads a collection equal to it: the same records, with the same fields, in the same
  order. When the file cannot be opened for writing, \<open>save_books\<close> returns \<open>False\<close> and
  the file stays as it was, so that a fresh agent loads what was there before. When the
  dump breaks off, \<open>save_books\<close> returns \<open>False\<close> and a fresh agent, finding text that
  is not JSON, starts with the empty collection.
\<close>

theorem C3_save_then_load:
  "books_of_json (dump_books bs) = Some bs
   \<and> books (snd (save_books s)) = books s
   \<and> fst (save_books s) = (on_write s = WriteOk)
   \<and> (on_write s = WriteOk \<longrightarrow>
        storage (snd (save_books s)) = Holds (dump_books (books s))
        \<and> load_books (storage (snd (save_books s))) = ([LogInfo], Returned (dump_books (books s)))
        \<and> LibraryAgent_init (storage (snd (save_books s))) w
            = Returned (Some \<lparr>books = books s, storage = Holds (dump_books (books s)),
                               on_write = w\<rparr>))
   \<and> (on_write s = OpenFails \<longrightarrow>
        save_books s = (False, s)
        \<and> LibraryAgent_init (storage (snd (save_books s))) w = LibraryAgent_init (storage s) w)
   \<and> (on_write s = DumpFails \<longrightarrow>
        save_books s = (False, s\<lparr>storage := Malformed\<rparr>)
        \<and> LibraryAgent_init (storage (snd (save_books s))) w
            = Returned (Some \<lparr>books = [], storage = Malformed, on_write = w\<rparr>))"
proof -
  have 1: "books_of_json (dump_books bs) = Some bs"
    by (rule books_of_json_dump_books)
  have 2: "books (snd (save_books s)) = books s"
    by (rule books_save_books)
  have 3: "fst (save_books s) = (on_write s = WriteOk)"
    by (cases "on_write s") (simp_all add: save_books_def)
  have 4: "on_write s = WriteOk \<longrightarrow>
        storage (snd (save_books s)) = Holds (dump_books (books s))
        \<and> load_books (storage (snd (save_books s))) = ([LogInfo], Returned (dump_books (books s)))
        \<and> LibraryAgent_init (storage (snd (save_books s))) w
            = Returned (Some \<lparr>books = books s, storage = Holds (dump_books (books s)),
                               on_write = w\<rparr>)"
    by (simp add: save_books_def load_books_dump LibraryAgent_init_def
        books_of_json_dump_books)
  have 5: "on_write s = OpenFails \<longrightarrow>
        save_books s = (False, s)
        \<and> LibraryAgent_init (storage (snd (save_books s))) w = LibraryAgent_init (storage s) w"
    by (simp add: save_books_def)
  have 6: "on_write s = DumpFails \<longrightarrow>
        save_books s = (False, s\<lparr>storage := Malformed\<rparr>)
        \<and> LibraryAgent_init (storage (snd (save_books s))) w
            = Returned (Some \<lparr>books = [], storage = Malformed, on_write = w\<rparr>)"
    by (simp add: save_books_def LibraryAgent_init_def load_books_def try_load_books_def)
  show ?thesis by (intro conjI 1 2 3 4 5 6)
qed

theorem C3_save_then_load_witness:
  "on_write unsaved_library = WriteOk
   \<and> storage unsaved_library = Absent
   \<and> LibraryAgent_init (storage (snd (save_books unsaved_library))) WriteOk
       = Returned (Some \<lparr>books = [dune], storage = Holds (dump_books [dune]),
                          on_write = WriteOk\<rparr>)
   \<and> on_write stale_library = OpenFails
   \<and> save_books stale_library = (False, stale_library)"
proof -
  have a: "on_write unsaved_library = WriteOk" "storage unsaved_library = Absent"
    "books unsaved_library = [dune]"
    by (simp_all add: unsaved_library_def)
  have b: "on_write stale_library = OpenFails"
    by (simp add: stale_library_def)
  note th = C3_save_then_load [of _ unsaved_library WriteOk,
      THEN conjunct2, THEN conjunct2, THEN conjunct2, THEN conjunct1, rule_format, OF a(1),
      THEN conjunct2, THEN conjunct2, unfolded a(3)]
  note th' = C3_save_then_load [of _ stale_library WriteOk,
      THEN conjunct2, THEN conjunct2, THEN conjunct2, THEN conjunct2, THEN conjunct1,
      rule_format, OF b, THEN conjunct1]
  show ?thesis by (intro conjI a(1) a(2) th b th')
qed

text \<open>
  C3 as stated fails when the write fails. The library holds two books, its file holds
  one of them and cannot be opened for writing: \<open>save_books\<close> returns \<open>False\<close> and a fresh
  agent on the same file loads the one book of the file, not the two in memory.
\<close>

theorem C3_failed_save_counterexample:
  "books stale_library = [emma, dune]
   \<and> fst (save_books stale_library) = False
   \<and> LibraryAgent_init (storage (snd (save_books stale_library))) WriteOk
       = Returned (Some \<lparr>books = [emma], storage = Holds (dump_books [emma]),
                          on_write = WriteOk\<rparr>)"
  by (simp add: stale_library_def save_books_def LibraryAgent_init_def load_books_dump
      books_of_json_dump_books)

section \<open>Deleting\<close>

lemma pop_by_id_None:
  "(\<And>b. b \<in> set bs \<Longrightarrow> book_id b \<noteq> bid) \<Longrightarrow> pop_by_id bid bs = None"
  by (induction bs) auto

lemma filter_all: "(\<And>x. x \<in> set xs \<Longrightarrow> P x) \<Longrightarrow> filter P xs = xs"
  by (induction xs) auto

lemma filter_length_less:
  "length (filter P xs) < length xs \<longleftrightarrow> (\<exists>x \<in> set xs. \<not> P x)"
proof (induction xs)
  case Nil
  show ?case by simp
next
  case (Cons x xs)
  have "length (filter P xs) \<le> length xs" by (rule length_filter_le)
  with Cons show ?case by (cases "P x") auto
qed

lemma lower_examples:
  "lower ''Dune'' = ''dune''" "lower ''Up'' = ''up''" "lower ''Heat'' = ''heat''"
  "lower ''UP'' = ''up''" "lower ''up'' = ''up''"
  by code_simp+

text \<open>
  C8. When no record of the library has the identifier, \<open>delete_book\<close> returns \<open>False\<close>
  and leaves the agent as it was; when no movie's title equals the argument (both in
  lower case, which is how \<open>delete_movie\<close> compares), \<open>delete_movie\<close> returns \<open>False\<close> and
  leaves the agent as it was. Length and contents of the collection are unchanged and
  nothing is written.
\<close>

theorem C8_delete_without_match:
  "((\<forall>b \<in> set (books s). book_id b \<noteq> bid) \<longrightarrow> delete_book bid s = (False, s))
   \<and> ((\<forall>m \<in> set (movies ms). lower (movie_title m) \<noteq> lower t) \<longrightarrow>
        delete_movie t ms = (Returned False, ms))"
  by (auto simp add: delete_book_def pop_by_id_None delete_movie_def Let_def filter_all)

theorem C8_delete_without_match_witness:
  "delete_book 7 one_book_library = (False, one_book_library)
   \<and> delete_movie ''Dune'' film_agent = (Returned False, film_agent)"
  using C8_delete_without_match [of one_book_library 7 film_agent "''Dune''"]
  by (simp add: one_book_library_books dune_def film_agent_def up_def heat_def
      up_remake_def lower_examples)

text \<open>
  C10 (as the code has it). \<open>delete_movie\<close> keeps exactly the movies whose title differs
  from the argument when both are put in lower case, in their order: every movie whose
  title matches is removed, however many there are. When none matches, it returns
  \<open>False\<close> and the agent stays as it was. When some movie matches, it writes the file
  unless the movies are kept in session state, and returns \<open>True\<close> when the write goes
  through or is not made; when the write fails, the error of the write reaches the
  caller in place of a result, the movies being removed in memory all the same.
\<close>

theorem C10_delete_movie:
  "movies (snd (delete_movie t s))
     = filter (\<lambda>m. lower (movie_title m) \<noteq> lower t) (movies s)
   \<and> use_session_state (snd (delete_movie t s)) = use_session_state s
   \<and> data_on_write (snd (delete_movie t s)) = data_on_write s
   \<and> ((\<forall>m \<in> set (movies s). lower (movie_title m) \<noteq> lower t) \<longrightarrow>
        delete_movie t s = (Returned False, s))
   \<and> ((\<exists>m \<in> set (movies s). lower (movie_title m) = lower t) \<longrightarrow>
        fst (delete_movie t s)
          = (if use_session_state s then Returned True
             else case data_on_write s of
               WriteOk \<Rightarrow> Returned True
             | OpenFails \<Rightarrow> Raised PermissionError
             | DumpFails \<Rightarrow> Raised OSError)
        \<and> data_file (snd (delete_movie t s))
          = (if use_session_state s then data_file s
             else case data_on_write s of
               WriteOk \<Rightarrow> Holds (filter (\<lambda>m. lower (movie_title m) \<noteq> lower t) (movies s))
             | OpenFails \<Rightarrow> data_file s
             | DumpFails \<Rightarrow> Malformed))"
proof -
  have 1: "movies (snd (delete_movie t s))
     = filter (\<lambda>m. lower (movie_title m) \<noteq> lower t) (movies s)"
    by (cases "data_on_write s") (simp_all add: delete_movie_def Let_def save_movies_def)
  have 2: "use_session_state (snd (delete_movie t s)) = use_session_state s"
    by (cases "data_on_write s") (simp_all add: delete_movie_def Let_def save_movies_def)
  have 3: "data_on_write (snd (delete_movie t s)) = data_on_write s"
    by (cases "data_on_write s") (simp_all add: delete_movie_def Let_def save_movies_def)
  have 4: "(\<forall>m \<in> set (movies s). lower (movie_title m) \<noteq> lower t) \<longrightarrow>
        delete_movie t s = (Returned False, s)"
    by (auto simp add: delete_movie_def Let_def filter_all)
  have 5: "(\<exists>m \<in> set (movies s). lower (movie_title m) = lower t) \<longrightarrow>
        fst (delete_movie t s)
          = (if use_session_state s then Returned True
             else case data_on_write s of
               WriteOk \<Rightarrow> Returned True
             | OpenFails \<Rightarrow> Raised PermissionError
             | DumpFails \<Rightarrow> Raised OSError)
        \<and> data_file (snd (delete_movie t s))
          = (if use_session_state s then data_file s
             else case data_on_write s of
               WriteOk \<Rightarrow> Holds (filter (\<lambda>m. lower (movie_title m) \<noteq> lower t) (movies s))
             | OpenFails \<Rightarrow> data_file s
             | DumpFails \<Rightarrow> Malformed)"
    by (cases "data_on_write s")
      (auto simp add: delete_movie_def Let_def save_movies_def filter_length_less)
  show ?thesis by (intro conjI 1 2 3 4 5)
qed

lemma film_agent_match:
  "\<exists>m \<in> set (movies film_agent). lower (movie_title m) = lower ''up''"
  by (simp add: film_agent_def up_def lower_examples)

theorem C10_delete_movie_witness:
  "up \<in> set (movies film_agent)
   \<and> lower (movie_title up) = lower ''up''
   \<and> movies (snd (delete_movie ''up'' film_agent)) = [heat]
   \<and> fst (delete_movie ''up'' film_agent) = Returned True
   \<and> data_file (snd (delete_movie ''up'' film_agent)) = Holds [heat]
   \<and> delete_movie ''Dune'' film_agent = (Returned False, film_agent)"
proof -
  note th = C10_delete_movie [of "''up''" film_agent]
  have f: "filter (\<lambda>m. lower (movie_title m) \<noteq> lower ''up'') (movies film_agent) = [heat]"
    by (simp add: film_agent_def up_def heat_def up_remake_def lower_examples)
  have a: "up \<in> set (movies film_agent)" "lower (movie_title up) = lower ''up''"
    by (simp_all add: film_agent_def up_def lower_examples)
  have b: "movies (snd (delete_movie ''up'' film_agent)) = [heat]"
    using th [THEN conjunct1] f by simp
  have c: "fst (delete_movie ''up'' film_agent) = Returned True"
    "data_file (snd (delete_movie ''up'' film_agent)) = Holds [heat]"
    using th [THEN conjunct2, THEN conjunct2, THEN conjunct2, THEN conjunct2, rule_format,
        OF film_agent_match] f
    by (simp_all add: film_agent_def)
  have d: "delete_movie ''Dune'' film_agent = (Returned False, film_agent)"
    using C10_delete_movie [of "''Dune''" film_agent,
        THEN conjunct2, THEN conjunct2, THEN conjunct2, THEN conjunct1]
    by (simp add: film_agent_def up_def heat_def up_remake_def lower_examples)
  show ?thesis by (intro conjI a b c d)
qed

text \<open>
  C10 as stated fails in its last part when the file cannot be written: two movies are
  removed, and \<open>delete_movie\<close> raises the error of the write instead of returning \<open>True\<close>.
\<close>

theorem C10_unwritable_file_counterexample:
  "movies unwritable_film_agent = [up, heat, up_remake]
   \<and> movies (snd (delete_movie ''up'' unwritable_film_agent)) = [heat]
   \<and> fst (delete_movie ''up'' unwritable_film_agent) = Raised PermissionError"
  by (simp add: unwritable_film_agent_def delete_movie_def save_movies_def Let_def
      up_def heat_def up_remake_def lower_examples)

section \<open>Loading\<close>

text \<open>
  C7 (as the code has it). \<open>load_books\<close> of the library never raises, whatever is at the
  path. With no file it returns the empty collection. On text that is not JSON it logs
  an error, prints its warning and returns the empty collection. On a file that cannot be
  opened for reading or whose bytes cannot be decoded it logs an error and returns the
  empty collection, and so it does on a document that is \<open>null\<close>, a truth value or a
  number, of which it cannot take the length. Any other document it returns as loaded.
  \<open>load_movies\<close> returns the empty collection with no file and on text that is not JSON,
  and a document as loaded; on a file that cannot be opened for reading it raises
  \<open>PermissionError\<close> and on bytes that cannot be decoded \<open>UnicodeDecodeError\<close>.
\<close>

theorem C7_load:
  "(\<exists>j. snd (load_books f) = Returned j)
   \<and> load_books Absent = ([LogInfo], Returned (JArray []))
   \<and> load_books Malformed = ([LogError, PrintWarning], Returned (JArray []))
   \<and> load_books Unreadable = ([LogError], Returned (JArray []))
   \<and> load_books Undecodable = ([LogError], Returned (JArray []))
   \<and> load_books (Holds j)
       = (if has_len j then ([LogInfo], Returned j) else ([LogError], Returned (JArray [])))
   \<and> load_movies Absent = Returned []
   \<and> load_movies Malformed = Returned []
   \<and> load_movies (Holds v) = Returned v
   \<and> load_movies Unreadable = Raised PermissionError
   \<and> load_movies Undecodable = Raised UnicodeDecodeError"
proof -
  have 1: "\<exists>j. snd (load_books f) = Returned j"
    by (cases f) (simp_all add: load_books_def try_load_books_def)
  have 2: "load_books Absent = ([LogInfo], Returned (JArray []))"
    "load_books Malformed = ([LogError, PrintWarning], Returned (JArray []))"
    "load_books Unreadable = ([LogError], Returned (JArray []))"
    "load_books Undecodable = ([LogError], Returned (JArray []))"
    "load_books (Holds j)
       = (if has_len j then ([LogInfo], Returned j) else ([LogError], Returned (JArray [])))"
    by (simp_all add: load_books_def try_load_books_def)
  have 3: "load_movies Absent = Returned []" "load_movies Malformed = Returned []"
    "load_movies (Holds v) = Returned v" "load_movies Unreadable = Raised PermissionError"
    "load_movies Undecodable = Raised UnicodeDecodeError"
    by (simp_all add: load_movies_def)
  show ?thesis by (intro conjI 1 2 3)
qed

text \<open>
  C7 as stated fails for the movie agent: \<open>load_movies\<close> handles \<open>JSONDecodeError\<close> and
  \<open>FileNotFoundError\<close> only, so a file that cannot be opened for reading, or that is not
  text in the expected encoding, makes it raise.
\<close>

theorem C7_load_movies_raises_counterexample:
  "load_movies Unreadable = Raised PermissionError
   \<and> load_movies Undecodable = Raised UnicodeDecodeError"
  by (simp add: load_movies_def)

section \<open>Recommendations\<close>

lemma set_insort_reverse: "set (insort_reverse k x xs) = insert x (set xs)"
  by (induction xs) auto

lemma mset_insort_reverse: "mset (insort_reverse k x xs) = add_mset x (mset xs)"
  by (induction xs) auto

lemma mset_sort_reverse: "mset (sort_reverse k xs) = mset xs"
  by (induction xs) (auto simp: mset_insort_reverse)

lemma set_sort_reverse: "set (sort_reverse k xs) = set xs"
  by (induction xs) (auto simp: set_insort_reverse)

lemma sorted_insort_reverse:
  "sorted_wrt (\<lambda>a b. k b \<le> k a) xs \<Longrightarrow> sorted_wrt (\<lambda>a b. k b \<le> k a) (insort_reverse k x xs)"
  by (induction xs) (auto simp: set_insort_reverse)

lemma sorted_sort_reverse: "sorted_wrt (\<lambda>a b. k b \<le> k a) (sort_reverse k xs)"
  by (induction xs) (auto simp: sorted_insort_reverse)

lemma filter_insort_reverse:
  "sorted_wrt (\<lambda>a b. k b \<le> k a) xs \<Longrightarrow>
   filter (\<lambda>y. k y = v) (insort_reverse k x xs)
     = (if k x = v then x # filter (\<lambda>y. k y = v) xs else filter (\<lambda>y. k y = v) xs)"
  by (induction xs) (auto intro!: filter_False [symmetric])

lemma sort_reverse_stable:
  "filter (\<lambda>y. k y = v) (sort_reverse k xs) = filter (\<lambda>y. k y = v) xs"
  by (induction xs) (auto simp: filter_insort_reverse sorted_sort_reverse)

lemma recommended_iff:
  "recommended g m b \<longleftrightarrow>
     (\<exists>q. rating b = Some q \<and> q \<noteq> 0 \<and> py_ge (Finite q) m)
     \<and> (\<forall>c. g = Some c \<longrightarrow> lower (genre b) = lower c)"
  by (cases "rating b"; cases g) (simp_all add: recommended_def)

lemma count_mset_filter: "P x \<Longrightarrow> count (mset (filter P xs)) x = count (mset xs) x"
  by (induction xs) auto

text \<open>
  C6 (as the code has it). \<open>get_recommendations\<close> returns its records sorted by rating,
  highest first, records of equal rating in the order of the collection. Every record it
  returns is in the collection, has a rating that is set and at least the threshold, and,
  when a genre is given, a genre equal to it after both are put in lower case. Every
  record with a rating that is set, not zero and at least the threshold, and with such a
  genre, is returned as often as it is in the collection. So a record with no rating is
  never returned. \<open>recommend\<close> of the movie agent returns the movies rated at least the
  threshold, each as often as it is in the collection and in the order of the collection:
  it is the collection with the other movies left out.
\<close>

theorem C6_recommendations:
  "sorted_wrt (\<lambda>a b. rating_of b \<le> rating_of a) (get_recommendations g m s)
   \<and> (\<forall>b \<in> set (get_recommendations g m s).
         b \<in> set (books s) \<and> (\<exists>q. rating b = Some q \<and> py_ge (Finite q) m)
         \<and> (\<forall>c. g = Some c \<longrightarrow> lower (genre b) = lower c))
   \<and> (\<forall>b::book. (\<exists>q. rating b = Some q \<and> q \<noteq> 0 \<and> py_ge (Finite q) m)
          \<and> (\<forall>c. g = Some c \<longrightarrow> lower (genre b) = lower c)
        \<longrightarrow> count (mset (get_recommendations g m s)) b = count (mset (books s)) b)
   \<and> (\<forall>v. filter (\<lambda>b. rating_of b = v) (get_recommendations g m s)
           = filter (\<lambda>b. rating_of b = v \<and> b \<in> set (get_recommendations g m s)) (books s))
   \<and> recommend mm ms = filter (\<lambda>x. py_ge (movie_rating x) mm) (movies ms)"
proof -
  let ?res = "get_recommendations g m s"
  have set_res: "set ?res = {b \<in> set (books s). recommended g m b}"
    by (simp add: get_recommendations_def set_sort_reverse)
  have 1: "sorted_wrt (\<lambda>a b. rating_of b \<le> rating_of a) ?res"
    unfolding get_recommendations_def by (rule sorted_sort_reverse)
  have 2: "\<forall>b \<in> set ?res.
         b \<in> set (books s) \<and> (\<exists>q. rating b = Some q \<and> py_ge (Finite q) m)
         \<and> (\<forall>c. g = Some c \<longrightarrow> lower (genre b) = lower c)"
    unfolding set_res by (auto simp: recommended_iff)
  have 3: "\<forall>b::book. (\<exists>q. rating b = Some q \<and> q \<noteq> 0 \<and> py_ge (Finite q) m)
          \<and> (\<forall>c. g = Some c \<longrightarrow> lower (genre b) = lower c)
        \<longrightarrow> count (mset ?res) b = count (mset (books s)) b"
  proof (intro allI impI)
    fix b :: book
    assume "(\<exists>q. rating b = Some q \<and> q \<noteq> 0 \<and> py_ge (Finite q) m)
          \<and> (\<forall>c. g = Some c \<longrightarrow> lower (genre b) = lower c)"
    then have "recommended g m b" by (simp add: recommended_iff)
    then show "count (mset ?res) b = count (mset (books s)) b"
      by (simp only: get_recommendations_def mset_sort_reverse count_mset_filter)
  qed
  have 4: "\<forall>v. filter (\<lambda>b. rating_of b = v) ?res
           = filter (\<lambda>b. rating_of b = v \<and> b \<in> set ?res) (books s)"
  proof
    fix v
    have "filter (\<lambda>b. rating_of b = v) ?res
            = filter (\<lambda>b. rating_of b = v) (filter (recommended g m) (books s))"
      unfolding get_recommendations_def by (rule sort_reverse_stable)
    also have "\<dots> = filter (\<lambda>b. rating_of b = v \<and> b \<in> set ?res) (books s)"
      unfolding set_res filter_filter by (rule filter_cong) auto
    finally show "filter (\<lambda>b. rating_of b = v) ?res
           = filter (\<lambda>b. rating_of b = v \<and> b \<in> set ?res) (books s)" .
  qed
  have 5: "recommend mm ms = filter (\<lambda>x. py_ge (movie_rating x) mm) (movies ms)"
    by (simp add: recommend_def)
  show ?thesis by (intro conjI 1 2 3 4 5)
qed

lemma emma_facts:
  "rating emma = Some (9 / 2)" "lower (genre emma) = lower ''FICTION''"
  "emma \<in> set (books rated_library)" "count_list (books rated_library) emma = 1"
  by code_simp+

theorem C6_recommendations_witness:
  "emma \<in> set (books rated_library)
   \<and> rating emma = Some (9 / 2)
   \<and> py_ge (Finite (9 / 2)) (Finite 4)
   \<and> lower (genre emma) = lower ''FICTION''
   \<and> count (mset (get_recommendations (Some ''FICTION'') (Finite 4) rated_library)) emma = 1
   \<and> sorted_wrt (\<lambda>a b. rating_of b \<le> rating_of a)
        (get_recommendations (Some ''FICTION'') (Finite 4) rated_library)"
proof -
  have ge: "py_ge (Finite (9 / 2)) (Finite 4)"
    by (simp add: py_ge_def)
  have h: "(\<exists>q. rating emma = Some q \<and> q \<noteq> 0 \<and> py_ge (Finite q) (Finite 4))
        \<and> (\<forall>c. Some ''FICTION'' = Some c \<longrightarrow> lower (genre emma) = lower c)"
  proof (intro conjI exI [of _ "9 / 2"] allI impI)
    show "rating emma = Some (9 / 2)" by (rule emma_facts)
    show "(9 / 2 :: rat) \<noteq> 0" by simp
    show "py_ge (Finite (9 / 2)) (Finite 4)" by (rule ge)
    fix c assume "Some ''FICTION'' = Some c"
    then show "lower (genre emma) = lower c" by (simp add: emma_facts)
  qed
  note th = C6_recommendations [of "Some ''FICTION''" "Finite 4" rated_library]
  have "count (mset (get_recommendations (Some ''FICTION'') (Finite 4) rated_library)) emma
          = count (mset (books rated_library)) emma"
    using th [THEN conjunct2, THEN conjunct2, THEN conjunct1, rule_format, of emma] h
    by simp
  moreover have "sorted_wrt (\<lambda>a b. rating_of b \<le> rating_of a)
        (get_recommendations (Some ''FICTION'') (Finite 4) rated_library)"
    by (rule th [THEN conjunct1])
  ultimately show ?thesis
    using ge by (simp add: emma_facts count_mset)
qed

text \<open>
  C6 as stated fails: the genre is compared in lower case, not exactly, so a query for
  \<open>Fiction\<close> returns a book whose genre is \<open>fiction\<close>; and \<open>recommend\<close> of the movie agent
  does not sort, returning ratings 8, 9, 6 in that order.
\<close>

theorem C6_recommendations_counterexample:
  "get_recommendations (Some ''Fiction'') (Finite 4) rated_library = [dune_rated, emma]
   \<and> genre emma \<noteq> ''Fiction''
   \<and> recommend (Finite 6) film_agent = [up, heat, up_remake]
   \<and> movie_rating up = Finite 8 \<and> movie_rating heat = Finite 9"
  by code_simp

section \<open>A rating of zero\<close>

lemma find_set_rating:
  "find (\<lambda>x. book_id x = bid) bs = Some b \<Longrightarrow>
   find (\<lambda>x. book_id x = bid) (set_rating bid q bs) = Some (b\<lparr>rating := Some q\<rparr>)"
  by (induction bs) (auto split: if_splits)

lemma find_Some_set: "find P xs = Some x \<Longrightarrow> x \<in> set xs \<and> P x"
  by (induction xs) (auto split: if_splits)

lemma rate_book_zero:
  assumes "get_book_by_id bid s = Some b"
  shows "rate_book bid (Finite 0) s
           = (True, snd (save_books (s\<lparr>books := set_rating bid 0 (books s)\<rparr>)))"
  using assms by (simp add: rate_book_def)

lemma filter_removeAll: "\<not> P x \<Longrightarrow> filter P (removeAll x xs) = filter P xs"
  by (induction xs) auto

lemma filter_map_unrated:
  "\<not> P x \<Longrightarrow> \<not> P y \<Longrightarrow> filter P (map (\<lambda>z. if z = x then y else z) xs) = filter P xs"
  by (induction xs) auto

lemma not_recommended_zero: "rating b = Some 0 \<Longrightarrow> \<not> recommended g m b"
  by (simp add: recommended_def)

lemma not_recommended_None: "rating b = None \<Longrightarrow> \<not> recommended g m b"
  by (simp add: recommended_def)

text \<open>
  C9. For a book that is in the library, \<open>rate_book\<close> with rating 0 succeeds and stores
  0. After that the book is not among the rated books of \<open>get_statistics\<close>: the rated
  books and their mean are those of the collection without it, and the statistics' mean
  is what it would be had the rating been absent. \<open>get_recommendations\<close> does not
  return the book for any genre and any threshold, and returns what it would return had
  the rating been absent.
\<close>

theorem C9_zero_rating_counts_as_unrated:
  assumes "get_book_by_id bid s = Some b"
  shows "fst (rate_book bid (Finite 0) s) = True
    \<and> get_book_by_id bid (snd (rate_book bid (Finite 0) s)) = Some (b\<lparr>rating := Some 0\<rparr>)
    \<and> b\<lparr>rating := Some 0\<rparr> \<in> set (books (snd (rate_book bid (Finite 0) s)))
    \<and> b\<lparr>rating := Some 0\<rparr> \<notin> set (rated_books (snd (rate_book bid (Finite 0) s)))
    \<and> rated_books (snd (rate_book bid (Finite 0) s))
        = rated_books ((snd (rate_book bid (Finite 0) s))
            \<lparr>books := removeAll (b\<lparr>rating := Some 0\<rparr>)
                        (books (snd (rate_book bid (Finite 0) s)))\<rparr>)
    \<and> avg_rating (snd (rate_book bid (Finite 0) s))
        = avg_rating ((snd (rate_book bid (Finite 0) s))
            \<lparr>books := removeAll (b\<lparr>rating := Some 0\<rparr>)
                        (books (snd (rate_book bid (Finite 0) s)))\<rparr>)
    \<and> b\<lparr>rating := Some 0\<rparr> \<notin> set (get_recommendations g m (snd (rate_book bid (Finite 0) s)))
    \<and> get_recommendations g m (snd (rate_book bid (Finite 0) s))
        = get_recommendations g m ((snd (rate_book bid (Finite 0) s))
            \<lparr>books := map (\<lambda>x. if x = b\<lparr>rating := Some 0\<rparr> then b\<lparr>rating := None\<rparr> else x)
                        (books (snd (rate_book bid (Finite 0) s)))\<rparr>)
    \<and> average_rating (get_statistics round2 (snd (rate_book bid (Finite 0) s)))
        = average_rating (get_statistics round2 ((snd (rate_book bid (Finite 0) s))
            \<lparr>books := map (\<lambda>x. if x = b\<lparr>rating := Some 0\<rparr> then b\<lparr>rating := None\<rparr> else x)
                        (books (snd (rate_book bid (Finite 0) s)))\<rparr>))"
proof -
  let ?s = "snd (rate_book bid (Finite 0) s)"
  let ?b = "b\<lparr>rating := Some 0\<rparr>"
  let ?u = "b\<lparr>rating := None\<rparr>"
  have fnd: "find (\<lambda>x. book_id x = bid) (books s) = Some b"
    using assms by (simp add: get_book_by_id_def)
  have r: "rate_book bid (Finite 0) s
           = (True, snd (save_books (s\<lparr>books := set_rating bid 0 (books s)\<rparr>)))"
    by (rule rate_book_zero [OF assms])
  have bs: "books ?s = set_rating bid 0 (books s)"
    by (simp add: r books_save_books)
  have 1: "fst (rate_book bid (Finite 0) s) = True"
    by (simp add: r)
  have 2: "get_book_by_id bid ?s = Some ?b"
    unfolding get_book_by_id_def bs by (rule find_set_rating [OF fnd])
  have 3: "?b \<in> set (books ?s)"
    using find_Some_set [OF 2 [unfolded get_book_by_id_def]] by simp
  have nb: "\<not> truthy (rating ?b)" and nu: "\<not> truthy (rating ?u)"
    by simp_all
  have 4: "?b \<notin> set (rated_books ?s)"
    using nb by (simp add: rated_books_def)
  have 5: "rated_books ?s = rated_books (?s\<lparr>books := removeAll ?b (books ?s)\<rparr>)"
    using nb by (simp add: rated_books_def filter_removeAll)
  have 6: "avg_rating ?s = avg_rating (?s\<lparr>books := removeAll ?b (books ?s)\<rparr>)"
    unfolding avg_rating_def 5 [symmetric] ..
  have 7: "?b \<notin> set (get_recommendations g m ?s)"
    by (simp add: get_recommendations_def set_sort_reverse not_recommended_zero)
  have 8: "get_recommendations g m ?s
        = get_recommendations g m
            (?s\<lparr>books := map (\<lambda>x. if x = ?b then ?u else x) (books ?s)\<rparr>)"
    by (simp add: get_recommendations_def filter_map_unrated not_recommended_zero
        not_recommended_None)
  have "rated_books ?s
        = rated_books (?s\<lparr>books := map (\<lambda>x. if x = ?b then ?u else x) (books ?s)\<rparr>)"
    using nb nu by (simp add: rated_books_def filter_map_unrated)
  then have "avg_rating ?s
        = avg_rating (?s\<lparr>books := map (\<lambda>x. if x = ?b then ?u else x) (books ?s)\<rparr>)"
    unfolding avg_rating_def by simp
  then have 9: "average_rating (get_statistics round2 ?s)
        = average_rating (get_statistics round2
            (?s\<lparr>books := map (\<lambda>x. if x = ?b then ?u else x) (books ?s)\<rparr>))"
    by (simp add: get_statistics_def)
  show ?thesis by (intro conjI 1 2 3 4 5 6 7 8 9)
qed

lemma walden_found: "get_book_by_id 5 rated_library = Some walden"
  by code_simp

theorem C9_zero_rating_counts_as_unrated_witness:
  "get_book_by_id 5 rated_library = Some walden
   \<and> fst (rate_book 5 (Finite 0) rated_library) = True
   \<and> get_book_by_id 5 (snd (rate_book 5 (Finite 0) rated_library))
       = Some (walden\<lparr>rating := Some 0\<rparr>)
   \<and> walden\<lparr>rating := Some 0\<rparr>
       \<notin> set (rated_books (snd (rate_book 5 (Finite 0) rated_library)))
   \<and> walden\<lparr>rating := Some 0\<rparr>
       \<notin> set (get_recommendations None (Finite 0)
                (snd (rate_book 5 (Finite 0) rated_library)))"
proof -
  note th = C9_zero_rating_counts_as_unrated [OF walden_found,
      where g = None and m = "Finite 0" and ?round2.0 = "\<lambda>x. x"]
  show ?thesis
    by (intro conjI walden_found th [THEN conjunct1]
        th [THEN conjunct2, THEN conjunct1]
        th [THEN conjunct2, THEN conjunct2, THEN conjunct2, THEN conjunct1]
        th [THEN conjunct2, THEN conjunct2, THEN conjunct2, THEN conjunct2,
            THEN conjunct2, THEN conjunct2, THEN conjunct1])
qed

end
